theory Spec2Isabelle
  imports
    Complex_Main
    "HOL-Library.AList"
    "HOL-Library.Char_ord"
    "HOL-Library.List_Lexorder"
    "HOL-Library.Multiset"
    "HOL-Library.Sublist"
begin

section \<open>Data model: a table of cells\<close>

text \<open>
  The script \<^verbatim>\<open>finalproject2.py\<close> keeps one pandas table \<^verbatim>\<open>df\<close>. A cell of
  that table is a Python string, a number, or the missing value NaN. Strings are byte
  strings here (UTF-8, whose bytewise order is the order of the code points); numbers are
  rationals, so the one rounding that float64 does in a mean is not part of the model.
  A row gives a cell for each column name; a column that a row does not mention reads as
  NaN, as pandas pads a short line of the file. \<^verbatim>\<open>read_csv\<close> makes the names of the
  header pairwise different, but two of them can become equal when line 41 strips them;
  line 61 is modelled for that case. What an operation does is decided by the cells of a
  column; the dtype that pandas keeps beside them is not modelled.
\<close>

datatype cell = Str string | Num rat | NaN

type_synonym row = "(string \<times> cell) list"

type_synonym series = "cell list"

record frame =
  columns :: "string list"
  rows :: "row list"

text \<open>
  What \<^verbatim>\<open>pd.read_csv\<close> can raise: FileNotFoundError, which line 42 catches, or any
  other exception (EmptyDataError, ParserError, UnicodeDecodeError, PermissionError,
  IsADirectoryError, ...), given by the name of its class, which nothing catches.
\<close>

datatype exn = FileNotFoundError | OtherException string

text \<open>
  What ends a run early. \<open>FileNotFound\<close> and \<open>ColumnMissing\<close> are the two places where
  the script calls \<^verbatim>\<open>st.error(...)\<close> and then \<^verbatim>\<open>st.stop()\<close>. The others are
  exceptions that nothing catches: \<open>ReadError\<close> is an exception of \<^verbatim>\<open>read_csv\<close> other
  than FileNotFoundError, \<open>KeyError\<close> and \<open>TypeError\<close> are what pandas raises for a
  column that does not exist, for \<^verbatim>\<open>.map(dict)\<close> on a table and for arithmetic or an
  order comparison on a string cell, and \<open>NameError\<close> stands for a reference that denotes
  no object.
\<close>

datatype error =
  FileNotFound | ColumnMissing | ReadError string | KeyError string | TypeError | NameError

fun is_str :: "cell \<Rightarrow> bool" where
  "is_str (Str s) = True"
| "is_str c = False"

fun is_number :: "cell \<Rightarrow> bool" where
  "is_number (Num x) = True"
| "is_number c = False"

fun the_str :: "cell \<Rightarrow> string" where
  "the_str (Str s) = s"
| "the_str c = []"

fun the_num :: "cell \<Rightarrow> rat" where
  "the_num (Num x) = x"
| "the_num c = 0"

definition cell_of :: "row \<Rightarrow> string \<Rightarrow> cell" where
  "cell_of r name = (case map_of r name of Some v \<Rightarrow> v | None \<Rightarrow> NaN)"

subsection \<open>The pandas operations the script uses\<close>

text \<open>\<^verbatim>\<open>df[name]\<close>: the column as a series, or KeyError.\<close>

definition getitem :: "frame \<Rightarrow> string \<Rightarrow> error + series" where
  "getitem df name =
     (if name \<in> set (columns df) then Inr (map (\<lambda>r. cell_of r name) (rows df))
      else Inl (KeyError name))"

text \<open>\<^verbatim>\<open>df[mask]\<close>: a new table with the rows whose mask entry is true, in order.\<close>

definition getitem_mask :: "frame \<Rightarrow> bool list \<Rightarrow> frame" where
  "getitem_mask df m = df\<lparr>rows := map fst (filter snd (zip (rows df) m))\<rparr>"

text \<open>
  \<^verbatim>\<open>df[name] = s\<close>: overwrites the column where it stands, or appends it as the last
  column. The script assigns only a series computed from \<^verbatim>\<open>df\<close> itself, which has one
  entry per row.
\<close>

definition setitem :: "frame \<Rightarrow> string \<Rightarrow> series \<Rightarrow> frame" where
  "setitem df name s =
     df\<lparr>columns := (if name \<in> set (columns df) then columns df else columns df @ [name]),
        rows := map (\<lambda>(r, v). AList.update name v r) (zip (rows df) s)\<rparr>"

text \<open>\<^verbatim>\<open>s.map(d)\<close> for a dict \<open>d\<close> with string keys: a cell that is no key becomes NaN.\<close>

definition map_cell :: "(string \<times> int) list \<Rightarrow> cell \<Rightarrow> cell" where
  "map_cell d c =
     (case c of
        Str k \<Rightarrow> (case map_of d k of Some v \<Rightarrow> Num (of_int v) | None \<Rightarrow> NaN)
      | Num x \<Rightarrow> NaN
      | NaN \<Rightarrow> NaN)"

definition map_series :: "(string \<times> int) list \<Rightarrow> series \<Rightarrow> series" where
  "map_series d s = map (map_cell d) s"

text \<open>\<^verbatim>\<open>df.dropna(subset=[name])\<close>: the rows whose cell in that column is not NaN.\<close>

definition dropna :: "frame \<Rightarrow> string \<Rightarrow> error + frame" where
  "dropna df name =
     (case getitem df name of
        Inl e \<Rightarrow> Inl e
      | Inr s \<Rightarrow> Inr (getitem_mask df (map (\<lambda>c. c \<noteq> NaN) s)))"

text \<open>
  A Python string is a sequence of characters (code points); here it is the sequence of
  the bytes of its UTF-8 encoding. \<open>chars\<close> cuts the bytes into the characters: the first
  byte of a character tells how many bytes it has.
\<close>

definition width :: "char \<Rightarrow> nat" where
  "width a =
     (let n = (of_char a :: nat)
      in if 0xC0 \<le> n \<and> n < 0xE0 then 2
         else if 0xE0 \<le> n \<and> n < 0xF0 then 3
         else if 0xF0 \<le> n \<and> n < 0xF8 then 4
         else 1)"

fun chars :: "string \<Rightarrow> string list" where
  "chars [] = []"
| "chars (a # r) = (a # take (width a - 1) r) # chars (drop (width a - 1) r)"

text \<open>
  \<^verbatim>\<open>str.isspace\<close> of one character. Python's whitespace is U+0009 to U+000D, U+001C to
  U+0020, U+0085, U+00A0, U+1680, U+2000 to U+200A, U+2028, U+2029, U+202F, U+205F and
  U+3000; the cases below are the UTF-8 encodings of these code points.
\<close>

definition isspace :: "string \<Rightarrow> bool" where
  "isspace ch =
     (case map of_char ch :: nat list of
        [a] \<Rightarrow> (9 \<le> a \<and> a \<le> 13) \<or> (28 \<le> a \<and> a \<le> 32)
      | [a, b] \<Rightarrow> a = 0xC2 \<and> (b = 0x85 \<or> b = 0xA0)
      | [a, b, c] \<Rightarrow>
          (a = 0xE1 \<and> b = 0x9A \<and> c = 0x80) \<or>
          (a = 0xE2 \<and> b = 0x80 \<and>
             ((0x80 \<le> c \<and> c \<le> 0x8A) \<or> c = 0xA8 \<or> c = 0xA9 \<or> c = 0xAF)) \<or>
          (a = 0xE2 \<and> b = 0x81 \<and> c = 0x9F) \<or>
          (a = 0xE3 \<and> b = 0x80 \<and> c = 0x80)
      | _ \<Rightarrow> False)"

text \<open>
  \<^verbatim>\<open>str.strip()\<close>, and with it \<^verbatim>\<open>.str.strip()\<close> of pandas on each name of an index:
  the string without the whitespace characters at its two ends.
\<close>

definition strip :: "string \<Rightarrow> string" where
  "strip s = concat (rev (dropWhile isspace (rev (dropWhile isspace (chars s)))))"

section \<open>Loading and normalising (lines 39 to 62)\<close>

text \<open>
  \<^verbatim>\<open>pd.read_csv\<close> either raises an exception or returns the parsed table.
  \<^verbatim>\<open>df.columns = df.columns.str.strip()\<close> then renames every column; here the name is
  also part of each row, so the rows are renamed with the header. Lines 39 to 44 catch
  FileNotFoundError, report it and stop; any other exception leaves the
  \<^verbatim>\<open>try\<close> statement uncaught and ends the run.
\<close>

datatype source = Raises exn | Returns frame

definition strip_columns :: "frame \<Rightarrow> frame" where
  "strip_columns df =
     df\<lparr>columns := map strip (columns df),
        rows := map (map (\<lambda>(k, v). (strip k, v))) (rows df)\<rparr>"

definition read_source :: "source \<Rightarrow> error + frame" where
  "read_source src =
     (case src of
        Raises FileNotFoundError \<Rightarrow> Inl FileNotFound
      | Raises (OtherException x) \<Rightarrow> Inl (ReadError x)
      | Returns raw \<Rightarrow> Inr (strip_columns raw))"

definition category_to_value :: "(string \<times> int) list" where
  "category_to_value =
     [(''Good'', 25),
      (''Moderate'', 75),
      (''Unhealthy for Sensitive Groups'', 125),
      (''Unhealthy'', 175),
      (''Very Unhealthy'', 250),
      (''Hazardous'', 350)]"

text \<open>
  Lines 57 to 62. When the header holds \<open>PM2.5 AQI Category\<close> more than once (two names
  that stripping made equal), \<^verbatim>\<open>df['PM2.5 AQI Category']\<close> is a table and not a series,
  and \<^verbatim>\<open>.map(category_to_value)\<close> on it raises TypeError, which nothing catches.
\<close>

definition normalise :: "frame \<Rightarrow> error + frame" where
  "normalise df =
     (if ''PM2.5 AQI Category'' \<notin> set (columns df) then Inl ColumnMissing
      else if 1 < count_list (columns df) ''PM2.5 AQI Category'' then Inl TypeError
      else
        (case getitem df ''PM2.5 AQI Category'' of
           Inl e \<Rightarrow> Inl e
         | Inr s \<Rightarrow>
             dropna (setitem df ''Estimated AQI'' (map_series category_to_value s))
               ''Estimated AQI''))"

definition load :: "source \<Rightarrow> error + frame" where
  "load src =
     (case read_source src of
        Inl e \<Rightarrow> Inl e
      | Inr df \<Rightarrow> normalise df)"

text \<open>The value line 61 writes into a row, and the row after that line.\<close>

definition estimate :: "row \<Rightarrow> cell" where
  "estimate r = map_cell category_to_value (cell_of r ''PM2.5 AQI Category'')"

definition with_estimate :: "row \<Rightarrow> row" where
  "with_estimate r = AList.update ''Estimated AQI'' (estimate r) r"

section \<open>The query layer (lines 65 to 143)\<close>

text \<open>
  \<^verbatim>\<open>s.unique()\<close>: the distinct cells of a series in the order of their first
  occurrence; NaN counts as one value.
\<close>

fun unique_from :: "'a list \<Rightarrow> 'a list \<Rightarrow> 'a list" where
  "unique_from seen [] = []"
| "unique_from seen (x # xs) =
     (if x \<in> set seen then unique_from seen xs else x # unique_from (x # seen) xs)"

definition unique :: "'a list \<Rightarrow> 'a list" where
  "unique s = unique_from [] s"

text \<open>
  Line 65:
  \<^verbatim>\<open>cities = sorted([city for city in df['City'].unique()
                    if isinstance(city, str) and city.strip() != ''])\<close>
\<close>

definition cities :: "frame \<Rightarrow> error + string list" where
  "cities df =
     (case getitem df ''City'' of
        Inl e \<Rightarrow> Inl e
      | Inr s \<Rightarrow>
          Inr (sort (map the_str
                 (filter (\<lambda>city. is_str city \<and> strip (the_str city) \<noteq> []) (unique s)))))"

text \<open>
  \<^verbatim>\<open>s == city\<close> compares cell by cell and never raises; against \<^verbatim>\<open>None\<close> every
  entry is false. \<^verbatim>\<open>s > threshold\<close> raises TypeError on a string cell and is false on
  NaN. \<^verbatim>\<open>m1 & m2\<close> is the conjunction entry by entry.
\<close>

definition series_eq :: "series \<Rightarrow> string option \<Rightarrow> bool list" where
  "series_eq s city = map (\<lambda>c. case city of None \<Rightarrow> False | Some v \<Rightarrow> c = Str v) s"

definition series_gt :: "series \<Rightarrow> rat \<Rightarrow> error + bool list" where
  "series_gt s threshold =
     (if list_ex is_str s then Inl TypeError
      else Inr (map (\<lambda>c. case c of Num x \<Rightarrow> threshold < x | _ \<Rightarrow> False) s))"

definition mask_and :: "bool list \<Rightarrow> bool list \<Rightarrow> bool list" where
  "mask_and m1 m2 = map (\<lambda>(a, b). a \<and> b) (zip m1 m2)"

text \<open>Python's truth value of the argument \<^verbatim>\<open>city\<close>: \<^verbatim>\<open>None\<close> and \<^verbatim>\<open>''\<close> are false.\<close>

fun truthy :: "string option \<Rightarrow> bool" where
  "truthy None = False"
| "truthy (Some s) = (s \<noteq> [])"

text \<open>
  Lines 70 to 73:
  \<^verbatim>\<open>def filter_data(df, city=None, threshold=50):
      if city:
          return df[(df['City'] == city) & (df['Estimated AQI'] > threshold)]
      return df[df['Estimated AQI'] > threshold]\<close>
\<close>

definition filter_data :: "frame \<Rightarrow> string option \<Rightarrow> rat \<Rightarrow> error + frame" where
  "filter_data df city threshold =
     (if truthy city then
        (case getitem df ''City'' of
           Inl e \<Rightarrow> Inl e
         | Inr cs \<Rightarrow>
             (case getitem df ''Estimated AQI'' of
                Inl e \<Rightarrow> Inl e
              | Inr as \<Rightarrow>
                  (case series_gt as threshold of
                     Inl e \<Rightarrow> Inl e
                   | Inr m \<Rightarrow> Inr (getitem_mask df (mask_and (series_eq cs city) m)))))
      else
        (case getitem df ''Estimated AQI'' of
           Inl e \<Rightarrow> Inl e
         | Inr as \<Rightarrow>
             (case series_gt as threshold of
                Inl e \<Rightarrow> Inl e
              | Inr m \<Rightarrow> Inr (getitem_mask df m))))"

text \<open>
  \<^verbatim>\<open>s.mean()\<close> and \<^verbatim>\<open>s.max()\<close> skip NaN and give NaN when nothing is left. The mean
  of a series with a string cell raises TypeError; the maximum of a series of strings
  only is the greatest string, and raises when strings are mixed with other cells.
\<close>

definition numbers :: "series \<Rightarrow> rat list" where
  "numbers s = map the_num (filter is_number s)"

definition mean_of :: "series \<Rightarrow> cell" where
  "mean_of s =
     (if numbers s = [] then NaN
      else Num (sum_list (numbers s) / of_nat (length (numbers s))))"

definition series_mean :: "series \<Rightarrow> error + cell" where
  "series_mean s = (if list_ex is_str s then Inl TypeError else Inr (mean_of s))"

definition series_max :: "series \<Rightarrow> error + cell" where
  "series_max s =
     (if s \<noteq> [] \<and> list_all is_str s then
        Inr (Str (fold max (map the_str (tl s)) (the_str (hd s))))
      else if list_ex is_str s then Inl TypeError
      else if numbers s = [] then Inr NaN
      else Inr (Num (fold max (tl (numbers s)) (hd (numbers s)))))"

text \<open>
  Lines 76 and 77:
  \<^verbatim>\<open>def get_summary(df):
      return df['Estimated AQI'].mean(), df['Estimated AQI'].max()\<close>
\<close>

definition get_summary :: "frame \<Rightarrow> error + (cell \<times> cell)" where
  "get_summary df =
     (case getitem df ''Estimated AQI'' of
        Inl e \<Rightarrow> Inl e
      | Inr s1 \<Rightarrow>
          (case series_mean s1 of
             Inl e \<Rightarrow> Inl e
           | Inr avg \<Rightarrow>
               (case getitem df ''Estimated AQI'' of
                  Inl e \<Rightarrow> Inl e
                | Inr s2 \<Rightarrow>
                    (case series_max s2 of
                       Inl e \<Rightarrow> Inl e
                     | Inr mx \<Rightarrow> Inr (avg, mx)))))"

text \<open>
  Line 80:
  \<^verbatim>\<open>city_stats = {city: df[df['City'] == city]['Estimated AQI'].mean() for city in cities}\<close>
\<close>

definition city_mean :: "frame \<Rightarrow> string \<Rightarrow> error + cell" where
  "city_mean df city =
     (case getitem df ''City'' of
        Inl e \<Rightarrow> Inl e
      | Inr cs \<Rightarrow>
          (case getitem (getitem_mask df (series_eq cs (Some city))) ''Estimated AQI'' of
             Inl e \<Rightarrow> Inl e
           | Inr as \<Rightarrow> series_mean as))"

fun city_stats :: "frame \<Rightarrow> string list \<Rightarrow> error + (string \<times> cell) list" where
  "city_stats df [] = Inr []"
| "city_stats df (city # rest) =
     (case city_mean df city of
        Inl e \<Rightarrow> Inl e
      | Inr v \<Rightarrow>
          (case city_stats df rest of
             Inl e \<Rightarrow> Inl e
           | Inr d \<Rightarrow> Inr ((city, v) # d)))"

text \<open>
  Line 110: \<^verbatim>\<open>df.groupby('City')['Estimated AQI'].mean()\<close>. The group keys are the
  cells of the key column other than NaN (pandas drops missing keys), each once, numbers
  first and then strings, each kind ascending. The result is the series of the group
  means, indexed by the keys; \<^verbatim>\<open>reset_index()\<close> only turns the index into a column.
\<close>

definition group_keys :: "series \<Rightarrow> cell list" where
  "group_keys s =
     (let ks = unique (filter (\<lambda>c. c \<noteq> NaN) s)
      in map Num (sort (map the_num (filter is_number ks))) @
         map Str (sort (map the_str (filter is_str ks))))"

definition group_cells :: "series \<Rightarrow> series \<Rightarrow> cell \<Rightarrow> series" where
  "group_cells ks vs k = map snd (filter (\<lambda>(c, v). c = k) (zip ks vs))"

definition grouped_df :: "frame \<Rightarrow> error + (cell \<times> cell) list" where
  "grouped_df df =
     (case getitem df ''City'' of
        Inl e \<Rightarrow> Inl e
      | Inr cs \<Rightarrow>
          (case getitem df ''Estimated AQI'' of
             Inl e \<Rightarrow> Inl e
           | Inr as \<Rightarrow>
               (if list_ex is_str as then Inl TypeError
                else Inr (map (\<lambda>k. (k, mean_of (group_cells cs as k))) (group_keys cs)))))"

text \<open>
  Line 131: \<^verbatim>\<open>df.nlargest(10, 'Estimated AQI')\<close>. The rows are ordered by the column,
  greatest first, rows of equal value in their order in the table (\<^verbatim>\<open>keep='first'\<close>),
  rows with NaN after all others; the first \<open>n\<close> are returned. A column with a string
  cell raises TypeError.
\<close>

definition nlargest :: "nat \<Rightarrow> string \<Rightarrow> frame \<Rightarrow> error + frame" where
  "nlargest n name df =
     (case getitem df name of
        Inl e \<Rightarrow> Inl e
      | Inr s \<Rightarrow>
          (if list_ex is_str s then Inl TypeError
           else Inr (df\<lparr>rows :=
                  take n
                    (sort_key (\<lambda>r. - the_num (cell_of r name))
                       (filter (\<lambda>r. is_number (cell_of r name)) (rows df)) @
                     filter (\<lambda>r. cell_of r name = NaN) (rows df))\<rparr>)))"

definition top10_df :: "frame \<Rightarrow> error + frame" where
  "top10_df df = nlargest 10 ''Estimated AQI'' df"

text \<open>
  Lines 139 to 142:
  \<^verbatim>\<open>default_city = cities[0] if cities else None
  default_threshold = 50
  multi_filter_df = df[(df['Estimated AQI'] > default_threshold) & (df['City'] == default_city)]\<close>
\<close>

definition default_city :: "string list \<Rightarrow> string option" where
  "default_city cs = (case cs of [] \<Rightarrow> None | c # rest \<Rightarrow> Some c)"

definition default_threshold :: rat where
  "default_threshold = 50"

definition multi_filter_df :: "frame \<Rightarrow> string list \<Rightarrow> error + frame" where
  "multi_filter_df df cs =
     (case getitem df ''Estimated AQI'' of
        Inl e \<Rightarrow> Inl e
      | Inr as \<Rightarrow>
          (case series_gt as default_threshold of
             Inl e \<Rightarrow> Inl e
           | Inr m \<Rightarrow>
               (case getitem df ''City'' of
                  Inl e \<Rightarrow> Inl e
                | Inr cc \<Rightarrow> Inr (getitem_mask df (mask_and m (series_eq cc (default_city cs)))))))"

text \<open>
  The module-level part of a run, lines 39 to 80: the table, the city list and the
  per-city means, or the error that ended the run.
\<close>

record globals =
  g_df :: frame
  g_cities :: "string list"
  g_city_stats :: "(string \<times> cell) list"

definition script :: "source \<Rightarrow> error + globals" where
  "script src =
     (case load src of
        Inl e \<Rightarrow> Inl e
      | Inr df \<Rightarrow>
          (case cities df of
             Inl e \<Rightarrow> Inl e
           | Inr cs \<Rightarrow>
               (case city_stats df cs of
                  Inl e \<Rightarrow> Inl e
                | Inr d \<Rightarrow> Inr \<lparr>g_df = df, g_cities = cs, g_city_stats = d\<rparr>)))"

section \<open>Tables as objects\<close>

text \<open>
  A pandas table is an object, and a Python variable holds a reference to it. To tell a
  call that changes its argument from one that does not, the objects are kept in a store,
  a reference is the place of an object in the store, and a call takes the store and
  returns the store it leaves behind. A new object is put at the first free place.
\<close>

type_synonym ref = nat

type_synonym store = "frame list"

definition deref :: "store \<Rightarrow> ref \<Rightarrow> frame option" where
  "deref st a = (if a < length st then Some (st ! a) else None)"

text \<open>
  Lines 61 and 62 change the table that \<^verbatim>\<open>df\<close> refers to:
  \<^verbatim>\<open>df['Estimated AQI'] = ...\<close> assigns a column of that object, and
  \<^verbatim>\<open>df.dropna(subset=['Estimated AQI'], inplace=True)\<close> removes rows from it. When
  line 59 stops the run or line 61 raises, the object is as it was.
\<close>

definition normalise_inplace :: "store \<Rightarrow> ref \<Rightarrow> error option \<times> store" where
  "normalise_inplace st a =
     (case deref st a of
        None \<Rightarrow> (Some NameError, st)
      | Some df \<Rightarrow>
          (case normalise df of
             Inl e \<Rightarrow> (Some e, st)
           | Inr ds \<Rightarrow> (None, st[a := ds])))"

text \<open>
  A call \<^verbatim>\<open>filter_data(df, city, threshold)\<close>: the argument is a reference. The body
  only reads the object; \<^verbatim>\<open>df[mask]\<close> makes a new table, and the call returns the
  reference to it (or raises, with the store as it was).
\<close>

definition filter_data_call ::
  "store \<Rightarrow> ref \<Rightarrow> string option \<Rightarrow> rat \<Rightarrow> (error + ref) \<times> store" where
  "filter_data_call st a city threshold =
     (case deref st a of
        None \<Rightarrow> (Inl NameError, st)
      | Some df \<Rightarrow>
          (case filter_data df city threshold of
             Inl e \<Rightarrow> (Inl e, st)
           | Inr res \<Rightarrow> (Inr (length st), st @ [res])))"

text \<open>
  A dataset in the sense of the query layer: the columns the queries read exist, and
  every row has a number as its estimated AQI.
\<close>

definition aqi :: "row \<Rightarrow> rat" where
  "aqi r = the_num (cell_of r ''Estimated AQI'')"

definition city :: "row \<Rightarrow> cell" where
  "city r = cell_of r ''City''"

definition dataset :: "frame \<Rightarrow> bool" where
  "dataset df \<longleftrightarrow>
     ''City'' \<in> set (columns df) \<and> ''Estimated AQI'' \<in> set (columns df) \<and>
     list_all (\<lambda>r. is_number (cell_of r ''Estimated AQI'')) (rows df)"

text \<open>
  A row whose category is a key of the lookup table: the rows the spec calls mapped.
\<close>

definition recognized :: "row \<Rightarrow> bool" where
  "recognized r =
     (case cell_of r ''PM2.5 AQI Category'' of
        Str k \<Rightarrow> k \<in> set (map fst category_to_value)
      | Num x \<Rightarrow> False
      | NaN \<Rightarrow> False)"

section \<open>Example tables\<close>

text \<open>
  A parsed file with a header that needs stripping, one row for each category of the
  table, a category in the wrong case, a missing category, a missing city and a blank
  city; and the table the script holds after loading it.
\<close>

definition sample_csv :: frame where
  "sample_csv =
     \<lparr>columns = [''City'', '' PM2.5 AQI Category ''],
      rows =
        [[(''City'', Str ''Oslo''), ('' PM2.5 AQI Category '', Str ''Good'')],
         [(''City'', Str ''Lima''), ('' PM2.5 AQI Category '', Str ''Moderate'')],
         [(''City'', Str ''Lima''),
          ('' PM2.5 AQI Category '', Str ''Unhealthy for Sensitive Groups'')],
         [(''City'', NaN), ('' PM2.5 AQI Category '', Str ''Unhealthy'')],
         [(''City'', Str ''Pune''), ('' PM2.5 AQI Category '', Str ''good'')],
         [(''City'', Str '' ''), ('' PM2.5 AQI Category '', Str ''Very Unhealthy'')],
         [(''City'', Str ''Pune''), ('' PM2.5 AQI Category '', NaN)],
         [(''City'', Str ''Delhi''), ('' PM2.5 AQI Category '', Str ''Hazardous'')]]\<rparr>"

definition reading :: "cell \<Rightarrow> string \<Rightarrow> rat \<Rightarrow> row" where
  "reading c k v = [(''City'', c), (''PM2.5 AQI Category'', Str k), (''Estimated AQI'', Num v)]"

definition sample_df :: frame where
  "sample_df =
     \<lparr>columns = [''City'', ''PM2.5 AQI Category'', ''Estimated AQI''],
      rows =
        [reading (Str ''Oslo'') ''Good'' 25,
         reading (Str ''Lima'') ''Moderate'' 75,
         reading (Str ''Lima'') ''Unhealthy for Sensitive Groups'' 125,
         reading NaN ''Unhealthy'' 175,
         reading (Str '' '') ''Very Unhealthy'' 250,
         reading (Str ''Delhi'') ''Hazardous'' 350]\<rparr>"

text \<open>The tables of the spec's examples: a city and an estimated AQI in each row.\<close>

definition aqi_table :: "(cell \<times> rat) list \<Rightarrow> frame" where
  "aqi_table rs =
     \<lparr>columns = [''City'', ''Estimated AQI''],
      rows = map (\<lambda>(c, v). [(''City'', c), (''Estimated AQI'', Num v)]) rs\<rparr>"

text \<open>
  A parsed file whose header has the category twice once the names are stripped, and a
  table whose cities include strings of whitespace only (a space; U+00A0; U+2003 and a
  tab), the empty string, a number and a missing value.
\<close>

definition twice_category_csv :: frame where
  "twice_category_csv =
     \<lparr>columns = [''City'', ''PM2.5 AQI Category'', ''PM2.5 AQI Category ''],
      rows =
        [[(''City'', Str ''Oslo''), (''PM2.5 AQI Category'', Str ''Good''),
          (''PM2.5 AQI Category '', Str ''Good'')]]\<rparr>"

definition blank_cities_df :: frame where
  "blank_cities_df =
     aqi_table
       [(Str ''Oslo'', 25), (Str '' '', 75), (Str [CHR 0xC2, CHR 0xA0], 75),
        (Str [CHR 0xE2, CHR 0x80, CHR 0x83, CHR 0x09], 125), (Str [], 125), (Num 7, 175),
        (NaN, 175), (Str ''lima'', 250), (Str ''Oslo'', 350), (Str ''Lima'', 25)]"

text \<open>A parsed file that has no category column.\<close>

definition no_category_csv :: frame where
  "no_category_csv =
     \<lparr>columns = [''City'', ''PM2.5 AQI Value''],
      rows = [[(''City'', Str ''Oslo''), (''PM2.5 AQI Value'', Num 12)]]\<rparr>"

section \<open>Facts about the table operations\<close>

lemma mask_filter: "map fst (filter snd (zip xs (map p xs))) = filter p xs"
  by (induction xs) simp_all

lemma mask_filter_map:
  "map fst (filter snd (zip (map f xs) (map q xs))) = map f (filter q xs)"
  by (induction xs) simp_all

lemma zip_with_map: "map (\<lambda>(r, v). f r v) (zip xs (map g xs)) = map (\<lambda>r. f r (g r)) xs"
  by (induction xs) simp_all

lemma cell_of_update_same: "cell_of (AList.update k v r) k = v"
  by (simp add: cell_of_def update_conv')

lemma cell_of_update_other: "k' \<noteq> k \<Longrightarrow> cell_of (AList.update k v r) k' = cell_of r k'"
  by (simp add: cell_of_def update_conv')

lemma normalise_rows:
  assumes "''PM2.5 AQI Category'' \<in> set (columns df)"
    and "\<not> 1 < count_list (columns df) ''PM2.5 AQI Category''"
  shows "normalise df =
    Inr \<lparr>columns = (if ''Estimated AQI'' \<in> set (columns df) then columns df
                    else columns df @ [''Estimated AQI'']),
         rows = map with_estimate (filter (\<lambda>r. estimate r \<noteq> NaN) (rows df))\<rparr>"
proof -
  define df1 where
    "df1 = setitem df ''Estimated AQI''
       (map_series category_to_value (map (\<lambda>r. cell_of r ''PM2.5 AQI Category'') (rows df)))"
  have r1: "rows df1 = map with_estimate (rows df)"
    unfolding df1_def
    by (simp add: setitem_def map_series_def with_estimate_def estimate_def
        zip_with_map [of "\<lambda>r v. AList.update ''Estimated AQI'' v r" _
          "\<lambda>r. map_cell category_to_value (cell_of r ''PM2.5 AQI Category'')"] comp_def)
  have c1: "columns df1 = (if ''Estimated AQI'' \<in> set (columns df) then columns df
                    else columns df @ [''Estimated AQI''])"
    unfolding df1_def by (simp add: setitem_def)
  have s1: "getitem df1 ''Estimated AQI'' = Inr (map estimate (rows df))"
    by (simp add: getitem_def c1 r1 with_estimate_def cell_of_update_same comp_def)
  have "dropna df1 ''Estimated AQI'' =
      Inr (df1\<lparr>rows := map with_estimate (filter (\<lambda>r. estimate r \<noteq> NaN) (rows df))\<rparr>)"
    by (simp add: dropna_def s1 getitem_mask_def r1 mask_filter_map comp_def)
  moreover have "normalise df = dropna df1 ''Estimated AQI''"
    using assms by (simp add: normalise_def getitem_def df1_def)
  ultimately show ?thesis
    by (simp add: c1)
qed

lemma map_cell_defined: "map_cell d c \<noteq> NaN \<longleftrightarrow> (\<exists>k. c = Str k \<and> k \<in> set (map fst d))"
  by (cases c) (auto simp: map_cell_def map_of_eq_None_iff split: option.splits dest: map_of_SomeD
      intro: rev_image_eqI)

lemma map_cell_is_number: "is_number (map_cell d c) \<longleftrightarrow> map_cell d c \<noteq> NaN"
  by (cases c) (auto simp: map_cell_def split: option.splits)

lemma estimate_recognized: "estimate r \<noteq> NaN \<longleftrightarrow> recognized r"
  unfolding estimate_def recognized_def map_cell_defined
  by (cases "cell_of r ''PM2.5 AQI Category''") auto

lemma normalise_Inr:
  assumes "normalise df = Inr ds"
  shows "''PM2.5 AQI Category'' \<in> set (columns df) \<and>
         rows ds = map with_estimate (filter recognized (rows df)) \<and>
         columns ds = (if ''Estimated AQI'' \<in> set (columns df) then columns df
                       else columns df @ [''Estimated AQI''])"
proof -
  have c: "''PM2.5 AQI Category'' \<in> set (columns df)"
    using assms by (auto simp: normalise_def split: if_splits)
  have d: "\<not> 1 < count_list (columns df) ''PM2.5 AQI Category''"
    using assms c by (auto simp: normalise_def split: if_splits)
  show ?thesis
    using assms c normalise_rows [OF c d] by (auto simp: estimate_recognized)
qed

lemma load_Returns: "load (Returns raw) = normalise (strip_columns raw)"
  by (simp add: load_def read_source_def)

lemma load_Raises:
  "load (Raises FileNotFoundError) = Inl FileNotFound"
  "load (Raises (OtherException x)) = Inl (ReadError x)"
  by (simp_all add: load_def read_source_def)

lemma load_Inr:
  assumes "load src = Inr ds"
  shows "\<exists>raw. src = Returns raw \<and> normalise (strip_columns raw) = Inr ds"
proof (cases src)
  case (Raises x)
  with assms show ?thesis
    by (cases x) (simp_all add: load_Raises)
next
  case (Returns raw)
  with assms show ?thesis
    by (simp add: load_Returns)
qed

lemma with_estimate_cells:
  "cell_of (with_estimate r) ''Estimated AQI'' = estimate r"
  "cell_of (with_estimate r) ''PM2.5 AQI Category'' = cell_of r ''PM2.5 AQI Category''"
  by (simp_all add: with_estimate_def cell_of_update_same cell_of_update_other)

lemma loaded_row:
  assumes "load src = Inr ds" and "r \<in> set (rows ds)"
  shows "cell_of r ''Estimated AQI'' =
           map_cell category_to_value (cell_of r ''PM2.5 AQI Category'') \<and>
         cell_of r ''Estimated AQI'' \<noteq> NaN"
proof -
  obtain raw where n: "normalise (strip_columns raw) = Inr ds"
    using load_Inr [OF assms(1)] by blast
  from normalise_Inr [OF n] assms(2)
  obtain r0 where r0: "r = with_estimate r0" "recognized r0"
    by auto
  then show ?thesis
    by (simp add: with_estimate_cells estimate_recognized) (simp add: estimate_def)
qed

lemma load_sample: "load (Returns sample_csv) = Inr sample_df"
  by code_simp

lemma dataset_getitem:
  assumes "dataset df"
  shows "getitem df ''City'' = Inr (map city (rows df))"
    and "getitem df ''Estimated AQI'' = Inr (map (\<lambda>r. cell_of r ''Estimated AQI'') (rows df))"
    and "\<not> list_ex is_str (map (\<lambda>r. cell_of r ''Estimated AQI'') (rows df))"
proof -
  show "getitem df ''City'' = Inr (map city (rows df))"
    using assms by (simp add: dataset_def getitem_def city_def)
  show "getitem df ''Estimated AQI'' = Inr (map (\<lambda>r. cell_of r ''Estimated AQI'') (rows df))"
    using assms by (simp add: dataset_def getitem_def)
  have "is_number c \<Longrightarrow> \<not> is_str c" for c
    by (cases c) simp_all
  then show "\<not> list_ex is_str (map (\<lambda>r. cell_of r ''Estimated AQI'') (rows df))"
    using assms by (auto simp: dataset_def list_all_iff list_ex_iff)
qed

lemma gt_num: "is_number c \<Longrightarrow> (case c of Num x \<Rightarrow> t < x | _ \<Rightarrow> False) = (t < the_num c)"
  by (cases c) simp_all

lemma dataset_series_gt:
  assumes "dataset df"
  shows "series_gt (map (\<lambda>r. cell_of r ''Estimated AQI'') (rows df)) t =
         Inr (map (\<lambda>r. t < aqi r) (rows df))"
proof -
  have "\<forall>r \<in> set (rows df). is_number (cell_of r ''Estimated AQI'')"
    using assms by (simp add: dataset_def list_all_iff)
  then have "map (\<lambda>c. case c of Num x \<Rightarrow> t < x | _ \<Rightarrow> False)
               (map (\<lambda>r. cell_of r ''Estimated AQI'') (rows df))
             = map (\<lambda>r. t < aqi r) (rows df)"
    by (simp add: gt_num aqi_def)
  then show ?thesis
    using dataset_getitem(3) [OF assms] by (simp add: series_gt_def)
qed

lemma mask_and_maps: "mask_and (map p xs) (map q xs) = map (\<lambda>x. p x \<and> q x) xs"
  by (induction xs) (simp_all add: mask_and_def)

lemma getitem_mask_map: "getitem_mask df (map p (rows df)) = df\<lparr>rows := filter p (rows df)\<rparr>"
  by (simp add: getitem_mask_def mask_filter)

lemma filter_data_city:
  assumes "dataset df" and "c \<noteq> []"
  shows "filter_data df (Some c) t =
         Inr (df\<lparr>rows := filter (\<lambda>r. city r = Str c \<and> t < aqi r) (rows df)\<rparr>)"
proof -
  have "series_eq (map city (rows df)) (Some c) = map (\<lambda>r. city r = Str c) (rows df)"
    by (simp add: series_eq_def)
  then show ?thesis
    using assms(2)
    by (simp add: filter_data_def dataset_getitem [OF assms(1)] dataset_series_gt [OF assms(1)]
        mask_and_maps getitem_mask_map)
qed

lemma filter_data_threshold:
  assumes "dataset df" and "\<not> truthy cty"
  shows "filter_data df cty t = Inr (df\<lparr>rows := filter (\<lambda>r. t < aqi r) (rows df)\<rparr>)"
  using assms(2)
  by (simp add: filter_data_def dataset_getitem [OF assms(1)] dataset_series_gt [OF assms(1)]
      getitem_mask_map)

lemma subseq_mask: "subseq (map fst (filter snd (zip xs m))) xs"
proof (induction xs arbitrary: m)
  case Nil
  show ?case by simp
next
  case (Cons x xs)
  show ?case
  proof (cases m)
    case Nil
    then show ?thesis by simp
  next
    case (Cons b bs)
    with Cons.IH [of bs] show ?thesis by (cases b) (simp_all add: list_emb_Cons)
  qed
qed

lemma filter_data_mask:
  assumes "filter_data df cty t = Inr res"
  shows "\<exists>m. res = getitem_mask df m"
  using assms
  by (auto simp: filter_data_def split: if_splits sum.splits)

lemma filter_data_subseq:
  assumes "filter_data df cty t = Inr res"
  shows "subseq (rows res) (rows df) \<and> set (rows res) \<subseteq> set (rows df) \<and>
         columns res = columns df"
proof -
  obtain m where m: "res = getitem_mask df m"
    using filter_data_mask [OF assms] by blast
  have s: "subseq (rows res) (rows df)"
    by (simp add: m getitem_mask_def subseq_mask)
  then have "set (rows res) \<subseteq> set (rows df)"
    by (auto elim: list_emb_set)
  with s show ?thesis by (simp add: m getitem_mask_def)
qed

text \<open>
  The contrast: lines 57 to 62, run on the object that \<^verbatim>\<open>df\<close> refers to, replace
  that object by the normalised table, and leave it alone when they fail.
\<close>

lemma normalise_inplace_changes:
  assumes "a < length st" and "normalise (st ! a) = Inr ds"
  shows "normalise_inplace st a = (None, st[a := ds]) \<and> snd (normalise_inplace st a) ! a = ds"
  using assms by (simp add: normalise_inplace_def deref_def)

lemma normalise_inplace_fails:
  assumes "a < length st" and "normalise (st ! a) = Inl e"
  shows "normalise_inplace st a = (Some e, st)"
  using assms by (simp add: normalise_inplace_def deref_def)

lemma normalise_inplace_sample:
  "normalise_inplace [strip_columns sample_csv] 0 = (None, [sample_df]) \<and>
   [sample_df] \<noteq> [strip_columns sample_csv]"
  by code_simp

lemma set_unique_from: "set (unique_from seen xs) = set xs - set seen"
  by (induction xs arbitrary: seen) auto

lemma distinct_unique_from: "distinct (unique_from seen xs)"
  by (induction xs arbitrary: seen) (auto simp: set_unique_from)

lemma set_unique: "set (unique xs) = set xs"
  by (simp add: unique_def set_unique_from)

lemma distinct_unique: "distinct (unique xs)"
  by (simp add: unique_def distinct_unique_from)

lemma dropWhile_all: "dropWhile P s = [] \<longleftrightarrow> list_all P s"
  by (induction s) simp_all

lemma concat_chars: "concat (chars s) = s"
  by (induction s rule: chars.induct) simp_all

lemma chars_nonempty: "[] \<notin> set (chars s)"
  by (induction s rule: chars.induct) simp_all

lemma trim_empty_iff: "rev (dropWhile P (rev (dropWhile P xs))) = [] \<longleftrightarrow> list_all P xs"
proof
  assume "list_all P xs"
  then have d: "dropWhile P xs = []"
    by (simp only: dropWhile_all)
  show "rev (dropWhile P (rev (dropWhile P xs))) = []"
    unfolding d by simp
next
  assume e: "rev (dropWhile P (rev (dropWhile P xs))) = []"
  show "list_all P xs"
  proof (rule ccontr)
    assume "\<not> list_all P xs"
    then have n: "dropWhile P xs \<noteq> []"
      by (simp only: dropWhile_all not_False_eq_True)
    then have "\<not> P (hd (dropWhile P xs))"
      by (rule hd_dropWhile)
    moreover have "hd (dropWhile P xs) \<in> set (rev (dropWhile P xs))"
      using n by simp
    ultimately have "dropWhile P (rev (dropWhile P xs)) \<noteq> []"
      unfolding dropWhile_all list_all_iff by blast
    then show False
      using e by (simp only: rev_is_Nil_conv)
  qed
qed

lemma concat_Nil_iff: "[] \<notin> set xs \<Longrightarrow> concat xs = [] \<longleftrightarrow> xs = []"
  by (cases xs) auto

lemma strip_empty_iff: "strip s = [] \<longleftrightarrow> list_all isspace (chars s)"
proof -
  let ?t = "rev (dropWhile isspace (rev (dropWhile isspace (chars s))))"
  have "set ?t \<subseteq> set (chars s)"
    by (auto dest!: set_dropWhileD)
  then have "[] \<notin> set ?t"
    using chars_nonempty [of s] by blast
  then have "concat ?t = [] \<longleftrightarrow> ?t = []"
    by (rule concat_Nil_iff)
  then show ?thesis
    unfolding strip_def by (simp only: trim_empty_iff)
qed

lemma strip_examples:
  "strip '' PM2.5 AQI Category '' = ''PM2.5 AQI Category''"
  "strip ([CHR 0xC2, CHR 0xA0] @ ''PM2.5 AQI Category'' @ [CHR 0xE3, CHR 0x80, CHR 0x80]) =
     ''PM2.5 AQI Category''"
  "strip [CHR 0xC2, CHR 0xA0] = []"
  "strip [CHR 0xE2, CHR 0x80, CHR 0x83, CHR 0x09] = []"
  "strip ''New  York'' = ''New  York''"
  "strip ([CHR 0xC3, CHR 0xA9] @ '' '') = [CHR 0xC3, CHR 0xA9]"
  "strip [CHR 0xD0, CHR 0xA0] = [CHR 0xD0, CHR 0xA0]"
  by code_simp+

lemma the_str_inj: "is_str a \<Longrightarrow> is_str b \<Longrightarrow> the_str a = the_str b \<Longrightarrow> a = b"
  by (cases a; cases b) simp_all

lemma str_cells_set:
  "set (map the_str (filter (\<lambda>c. is_str c \<and> P (the_str c)) xs)) = {s. Str s \<in> set xs \<and> P s}"
proof -
  have "is_str c \<longleftrightarrow> (\<exists>s. c = Str s)" for c
    by (cases c) simp_all
  then show ?thesis
    by (auto simp: image_iff) force
qed

lemma str_cells_distinct:
  assumes "distinct xs"
  shows "distinct (map the_str (filter (\<lambda>c. is_str c \<and> P (the_str c)) xs))"
proof -
  have "inj_on the_str (set (filter (\<lambda>c. is_str c \<and> P (the_str c)) xs))"
    by (rule inj_onI) (auto dest: the_str_inj)
  then show ?thesis
    using assms by (simp add: distinct_map)
qed

lemma city_fun: "(\<lambda>r. cell_of r ''City'') = city"
  by (simp add: fun_eq_iff city_def)

lemma cities_Inr:
  assumes "''City'' \<in> set (columns df)"
  shows "cities df =
    Inr (sort (map the_str (filter (\<lambda>c. is_str c \<and> strip (the_str c) \<noteq> [])
           (unique (map city (rows df))))))"
  using assms by (simp add: cities_def getitem_def city_fun)

lemma cities_set:
  assumes "cities df = Inr cs"
  shows "''City'' \<in> set (columns df) \<and>
         set cs = {s. Str s \<in> set (map city (rows df)) \<and> strip s \<noteq> []}"
proof -
  have c: "''City'' \<in> set (columns df)"
    using assms by (auto simp: cities_def getitem_def split: if_splits)
  show ?thesis
    using assms c unfolding cities_Inr [OF c]
    by (auto simp only: sum.inject set_sort str_cells_set [where P = "\<lambda>s. strip s \<noteq> []"] set_unique)
qed

lemma mask_and_commute: "mask_and a b = mask_and b a"
proof (induction a arbitrary: b)
  case Nil
  show ?case by (simp add: mask_and_def)
next
  case (Cons x xs)
  then show ?case
    by (cases b) (auto simp: mask_and_def)
qed

lemma cities_head:
  assumes "cities df = Inr cs" and "cs \<noteq> []"
  shows "''City'' \<in> set (columns df) \<and> default_city cs = Some (hd cs) \<and> hd cs \<noteq> []"
proof -
  have "hd cs \<in> set cs"
    using assms(2) by simp
  then have "strip (hd cs) \<noteq> []"
    using cities_set [OF assms(1)] by blast
  then have "hd cs \<noteq> []"
    by (auto simp: strip_def)
  moreover have "default_city cs = Some (hd cs)"
    using assms(2) by (cases cs) (simp_all add: default_city_def)
  ultimately show ?thesis
    using cities_set [OF assms(1)] by simp
qed

lemma dataset_sample: "dataset sample_df"
  by code_simp

lemma cities_sample: "cities sample_df = Inr [''Delhi'', ''Lima'', ''Oslo'']"
  by code_simp

lemma columns_strip_columns: "columns (strip_columns raw) = map strip (columns raw)"
  by (simp add: strip_columns_def)

lemma normalise_cases:
  "normalise df =
     (if ''PM2.5 AQI Category'' \<notin> set (columns df) then Inl ColumnMissing
      else if 1 < count_list (columns df) ''PM2.5 AQI Category'' then Inl TypeError
      else Inr \<lparr>columns = (if ''Estimated AQI'' \<in> set (columns df) then columns df
                             else columns df @ [''Estimated AQI'']),
                  rows = map with_estimate (filter (\<lambda>r. estimate r \<noteq> NaN) (rows df))\<rparr>)"
proof (cases "''PM2.5 AQI Category'' \<in> set (columns df)")
  case False
  then show ?thesis
    by (simp add: normalise_def)
next
  case True
  show ?thesis
  proof (cases "1 < count_list (columns df) ''PM2.5 AQI Category''")
    case dup: True
    with True show ?thesis
      by (simp add: normalise_def)
  next
    case one: False
    from normalise_rows [OF True one] True one show ?thesis
      by simp
  qed
qed

lemma load_Inl:
  "load src = Inl e \<longleftrightarrow>
     (src = Raises FileNotFoundError \<and> e = FileNotFound) \<or>
     (\<exists>x. src = Raises (OtherException x) \<and> e = ReadError x) \<or>
     (\<exists>raw. src = Returns raw \<and> e = ColumnMissing \<and>
        ''PM2.5 AQI Category'' \<notin> set (map strip (columns raw))) \<or>
     (\<exists>raw. src = Returns raw \<and> e = TypeError \<and>
        1 < count_list (map strip (columns raw)) ''PM2.5 AQI Category'')"
proof (cases src)
  case (Raises x)
  then show ?thesis
    by (cases x) (auto simp: load_Raises)
next
  case (Returns raw)
  have "''PM2.5 AQI Category'' \<in> set (map strip (columns raw))"
    if "1 < count_list (map strip (columns raw)) ''PM2.5 AQI Category''"
    using that by (metis count_notin less_nat_zero_code)
  then show ?thesis
    unfolding Returns load_Returns normalise_cases columns_strip_columns
    by (auto split: if_splits)
qed

lemma script_Inl: "load src = Inl e \<Longrightarrow> script src = Inl e"
  by (simp add: script_def)

lemma loaded_complete:
  assumes "load src = Inr ds"
  shows "''Estimated AQI'' \<in> set (columns ds) \<and>
         list_all (\<lambda>r. is_number (cell_of r ''Estimated AQI'')) (rows ds)"
proof -
  obtain raw where n: "normalise (strip_columns raw) = Inr ds"
    using load_Inr [OF assms] by blast
  have "''Estimated AQI'' \<in> set (columns ds)"
    using normalise_Inr [OF n] by (simp split: if_splits)
  moreover have "list_all (\<lambda>r. is_number (cell_of r ''Estimated AQI'')) (rows ds)"
    unfolding list_all_iff
  proof
    fix r assume "r \<in> set (rows ds)"
    from loaded_row [OF assms this] show "is_number (cell_of r ''Estimated AQI'')"
      by (metis map_cell_is_number)
  qed
  ultimately show ?thesis by simp
qed

lemma number_not_str: "is_number c \<Longrightarrow> \<not> is_str c"
  by (cases c) simp_all

lemma numbers_all:
  assumes "list_all (\<lambda>r. is_number (f r)) xs"
  shows "numbers (map f xs) = map (\<lambda>r. the_num (f r)) xs"
  using assms by (induction xs) (simp_all add: numbers_def)

lemma fold_max_Max:
  fixes xs :: "'a::linorder list"
  assumes "xs \<noteq> []"
  shows "fold max (tl xs) (hd xs) = Max (set xs)"
proof (cases xs)
  case Nil
  with assms show ?thesis by simp
next
  case (Cons a list)
  show ?thesis
    unfolding Cons list.sel by (rule Max.set_eq_fold [symmetric])
qed

lemma aqi_fun: "(\<lambda>r. the_num (cell_of r ''Estimated AQI'')) = aqi"
  by (simp add: fun_eq_iff aqi_def)

lemma mean_of_numbers:
  assumes "list_all (\<lambda>r. is_number (cell_of r ''Estimated AQI'')) xs" and "xs \<noteq> []"
  shows "mean_of (map (\<lambda>r. cell_of r ''Estimated AQI'') xs) =
         Num (sum_list (map aqi xs) / of_nat (length xs))"
  using assms(2) by (simp add: mean_of_def numbers_all [OF assms(1)] aqi_fun)

lemma sort_key_descending:
  fixes f :: "'a \<Rightarrow> rat"
  shows "sorted_wrt (\<lambda>a b. f b \<le> f a) (sort_key (\<lambda>r. - f r) xs)"
proof -
  have "sorted (map (\<lambda>r. - f r) (sort_key (\<lambda>r. - f r) xs))"
    by (rule sorted_sort_key)
  then show ?thesis
    by (simp add: sorted_map)
qed

lemma dataset_filters:
  assumes "dataset df"
  shows "filter (\<lambda>r. is_number (cell_of r ''Estimated AQI'')) (rows df) = rows df"
    and "filter (\<lambda>r. cell_of r ''Estimated AQI'' = NaN) (rows df) = []"
proof -
  have all: "\<forall>r \<in> set (rows df). is_number (cell_of r ''Estimated AQI'')"
    using assms by (simp add: dataset_def list_all_iff)
  then show "filter (\<lambda>r. is_number (cell_of r ''Estimated AQI'')) (rows df) = rows df"
    by simp
  have "is_number c \<Longrightarrow> c \<noteq> NaN" for c
    by (cases c) simp_all
  with all show "filter (\<lambda>r. cell_of r ''Estimated AQI'' = NaN) (rows df) = []"
    by (auto simp: filter_empty_conv)
qed

lemma nlargest_dataset:
  assumes "dataset df"
  shows "nlargest n ''Estimated AQI'' df =
         Inr (df\<lparr>rows := take n (sort_key (\<lambda>r. - aqi r) (rows df))\<rparr>)"
  by (simp add: nlargest_def dataset_getitem [OF assms] dataset_filters [OF assms] aqi_def)

lemma cell_kinds: "c \<noteq> NaN \<longleftrightarrow> is_number c \<or> is_str c"
  by (cases c) simp_all

lemma num_cells_set: "set (map Num (sort (map the_num (filter is_number ks)))) = {c \<in> set ks. is_number c}"
proof -
  have "is_number c \<Longrightarrow> Num (the_num c) = c" for c
    by (cases c) simp_all
  then show ?thesis
    by (auto simp: image_iff)
qed

lemma str_cells_back: "set (map Str (sort (map the_str (filter is_str ks)))) = {c \<in> set ks. is_str c}"
proof -
  have "is_str c \<Longrightarrow> Str (the_str c) = c" for c
    by (cases c) simp_all
  then show ?thesis
    by (auto simp: image_iff)
qed

lemma group_keys_set: "set (group_keys s) = set s - {NaN}"
proof -
  let ?ks = "unique (filter (\<lambda>c. c \<noteq> NaN) s)"
  have "set (group_keys s) = {c \<in> set ?ks. is_number c} \<union> {c \<in> set ?ks. is_str c}"
    unfolding group_keys_def Let_def set_append num_cells_set str_cells_back ..
  also have "\<dots> = set s - {NaN}"
    by (auto simp: set_unique cell_kinds)
  finally show ?thesis .
qed

lemma the_num_inj: "is_number a \<Longrightarrow> is_number b \<Longrightarrow> the_num a = the_num b \<Longrightarrow> a = b"
  by (cases a; cases b) simp_all

lemma group_keys_distinct: "distinct (group_keys s)"
proof -
  define ks where "ks = unique (filter (\<lambda>c. c \<noteq> NaN) s)"
  have d: "distinct ks"
    unfolding ks_def by (rule distinct_unique)
  have "inj_on the_num (set (filter is_number ks))"
    by (rule inj_onI) (auto dest: the_num_inj)
  then have n: "distinct (map the_num (filter is_number ks))"
    using d by (simp add: distinct_map)
  have "inj_on the_str (set (filter is_str ks))"
    by (rule inj_onI) (auto dest: the_str_inj)
  then have t: "distinct (map the_str (filter is_str ks))"
    using d by (simp add: distinct_map)
  have a: "distinct (map Num (sort (map the_num (filter is_number ks))))"
    using n by (simp add: distinct_map inj_on_def)
  have b: "distinct (map Str (sort (map the_str (filter is_str ks))))"
    using t by (simp add: distinct_map inj_on_def)
  have c: "set (map Num (sort (map the_num (filter is_number ks)))) \<inter>
           set (map Str (sort (map the_str (filter is_str ks)))) = {}"
    unfolding num_cells_set str_cells_back using number_not_str by blast
  have "group_keys s = map Num (sort (map the_num (filter is_number ks))) @
                       map Str (sort (map the_str (filter is_str ks)))"
    by (simp add: group_keys_def ks_def Let_def)
  then show ?thesis
    using a b c by (simp only: distinct_append simp_thms)
qed

lemma group_cells_rows:
  "group_cells (map f xs) (map g xs) k = map g (filter (\<lambda>r. f r = k) xs)"
  by (induction xs) (simp_all add: group_cells_def)

lemma grouped_df_dataset:
  assumes "dataset df"
  shows "grouped_df df =
    Inr (map (\<lambda>k. (k, mean_of (map (\<lambda>r. cell_of r ''Estimated AQI'')
                            (filter (\<lambda>r. city r = k) (rows df)))))
           (group_keys (map city (rows df))))"
  using dataset_getitem(3) [OF assms]
  by (simp add: grouped_df_def dataset_getitem(1,2) [OF assms] group_cells_rows)

lemma map_of_graph: "k \<in> set ks \<Longrightarrow> map_of (map (\<lambda>k. (k, h k)) ks) k = Some (h k)"
  by (induction ks) auto

lemma group_mean:
  assumes "dataset df" and "k \<in> set (map city (rows df))"
  shows "mean_of (map (\<lambda>r. cell_of r ''Estimated AQI'') (filter (\<lambda>r. city r = k) (rows df))) =
         Num (sum_list (map aqi (filter (\<lambda>r. city r = k) (rows df))) /
              of_nat (length (filter (\<lambda>r. city r = k) (rows df))))"
proof -
  have "list_all (\<lambda>r. is_number (cell_of r ''Estimated AQI'')) (rows df)"
    using assms(1) by (simp add: dataset_def)
  then have a: "list_all (\<lambda>r. is_number (cell_of r ''Estimated AQI''))
                  (filter (\<lambda>r. city r = k) (rows df))"
    by (simp add: list_all_iff)
  have n: "filter (\<lambda>r. city r = k) (rows df) \<noteq> []"
    using assms(2) by (auto simp: filter_empty_conv)
  show ?thesis
    by (rule mean_of_numbers [OF a n])
qed

section \<open>The loader\<close>

text \<open>
  C1. In the table the loader returns, a row whose \<open>PM2.5 AQI Category\<close> is one of the
  six keys of \<open>category_to_value\<close> has as \<open>Estimated AQI\<close> exactly the number of the
  table: 25 for Good, 75 for Moderate, 125 for Unhealthy for Sensitive Groups, 175 for
  Unhealthy, 250 for Very Unhealthy and 350 for Hazardous.
\<close>

theorem estimated_aqi_lookup:
  assumes "load src = Inr ds" and "r \<in> set (rows ds)"
  shows "(cell_of r ''PM2.5 AQI Category'' = Str ''Good'' \<longrightarrow>
            cell_of r ''Estimated AQI'' = Num 25) \<and>
         (cell_of r ''PM2.5 AQI Category'' = Str ''Moderate'' \<longrightarrow>
            cell_of r ''Estimated AQI'' = Num 75) \<and>
         (cell_of r ''PM2.5 AQI Category'' = Str ''Unhealthy for Sensitive Groups'' \<longrightarrow>
            cell_of r ''Estimated AQI'' = Num 125) \<and>
         (cell_of r ''PM2.5 AQI Category'' = Str ''Unhealthy'' \<longrightarrow>
            cell_of r ''Estimated AQI'' = Num 175) \<and>
         (cell_of r ''PM2.5 AQI Category'' = Str ''Very Unhealthy'' \<longrightarrow>
            cell_of r ''Estimated AQI'' = Num 250) \<and>
         (cell_of r ''PM2.5 AQI Category'' = Str ''Hazardous'' \<longrightarrow>
            cell_of r ''Estimated AQI'' = Num 350)"
proof -
  have e: "cell_of r ''Estimated AQI'' =
      map_cell category_to_value (cell_of r ''PM2.5 AQI Category'')"
    using loaded_row [OF assms] by simp
  show ?thesis
    unfolding e by (simp add: map_cell_def category_to_value_def)
qed

theorem estimated_aqi_lookup_witness:
  "load (Returns sample_csv) = Inr sample_df \<and>
   reading (Str ''Oslo'') ''Good'' 25 \<in> set (rows sample_df) \<and>
   cell_of (reading (Str ''Oslo'') ''Good'' 25) ''Estimated AQI'' = Num 25 \<and>
   reading (Str ''Lima'') ''Moderate'' 75 \<in> set (rows sample_df) \<and>
   cell_of (reading (Str ''Lima'') ''Moderate'' 75) ''Estimated AQI'' = Num 75 \<and>
   reading (Str ''Lima'') ''Unhealthy for Sensitive Groups'' 125 \<in> set (rows sample_df) \<and>
   cell_of (reading (Str ''Lima'') ''Unhealthy for Sensitive Groups'' 125) ''Estimated AQI'' = Num 125 \<and>
   reading NaN ''Unhealthy'' 175 \<in> set (rows sample_df) \<and>
   cell_of (reading NaN ''Unhealthy'' 175) ''Estimated AQI'' = Num 175 \<and>
   reading (Str '' '') ''Very Unhealthy'' 250 \<in> set (rows sample_df) \<and>
   cell_of (reading (Str '' '') ''Very Unhealthy'' 250) ''Estimated AQI'' = Num 250 \<and>
   reading (Str ''Delhi'') ''Hazardous'' 350 \<in> set (rows sample_df) \<and>
   cell_of (reading (Str ''Delhi'') ''Hazardous'' 350) ''Estimated AQI'' = Num 350"
proof -
  note t = estimated_aqi_lookup [OF load_sample]
  have m1: "reading (Str ''Oslo'') ''Good'' 25 \<in> set (rows sample_df)"
    by (simp add: sample_df_def)
  have k1: "cell_of (reading (Str ''Oslo'') ''Good'' 25) ''PM2.5 AQI Category'' = Str ''Good''"
    by (simp add: reading_def cell_of_def)
  have v1: "cell_of (reading (Str ''Oslo'') ''Good'' 25) ''Estimated AQI'' = Num 25"
    using t [OF m1] k1 by blast
  have m2: "reading (Str ''Lima'') ''Moderate'' 75 \<in> set (rows sample_df)"
    by (simp add: sample_df_def)
  have k2: "cell_of (reading (Str ''Lima'') ''Moderate'' 75) ''PM2.5 AQI Category'' = Str ''Moderate''"
    by (simp add: reading_def cell_of_def)
  have v2: "cell_of (reading (Str ''Lima'') ''Moderate'' 75) ''Estimated AQI'' = Num 75"
    using t [OF m2] k2 by blast
  have m3: "reading (Str ''Lima'') ''Unhealthy for Sensitive Groups'' 125 \<in> set (rows sample_df)"
    by (simp add: sample_df_def)
  have k3: "cell_of (reading (Str ''Lima'') ''Unhealthy for Sensitive Groups'' 125) ''PM2.5 AQI Category'' = Str ''Unhealthy for Sensitive Groups''"
    by (simp add: reading_def cell_of_def)
  have v3: "cell_of (reading (Str ''Lima'') ''Unhealthy for Sensitive Groups'' 125) ''Estimated AQI'' = Num 125"
    using t [OF m3] k3 by blast
  have m4: "reading NaN ''Unhealthy'' 175 \<in> set (rows sample_df)"
    by (simp add: sample_df_def)
  have k4: "cell_of (reading NaN ''Unhealthy'' 175) ''PM2.5 AQI Category'' = Str ''Unhealthy''"
    by (simp add: reading_def cell_of_def)
  have v4: "cell_of (reading NaN ''Unhealthy'' 175) ''Estimated AQI'' = Num 175"
    using t [OF m4] k4 by blast
  have m5: "reading (Str '' '') ''Very Unhealthy'' 250 \<in> set (rows sample_df)"
    by (simp add: sample_df_def)
  have k5: "cell_of (reading (Str '' '') ''Very Unhealthy'' 250) ''PM2.5 AQI Category'' = Str ''Very Unhealthy''"
    by (simp add: reading_def cell_of_def)
  have v5: "cell_of (reading (Str '' '') ''Very Unhealthy'' 250) ''Estimated AQI'' = Num 250"
    using t [OF m5] k5 by blast
  have m6: "reading (Str ''Delhi'') ''Hazardous'' 350 \<in> set (rows sample_df)"
    by (simp add: sample_df_def)
  have k6: "cell_of (reading (Str ''Delhi'') ''Hazardous'' 350) ''PM2.5 AQI Category'' = Str ''Hazardous''"
    by (simp add: reading_def cell_of_def)
  have v6: "cell_of (reading (Str ''Delhi'') ''Hazardous'' 350) ''Estimated AQI'' = Num 350"
    using t [OF m6] k6 by blast
  show ?thesis
    using load_sample m1 m2 m3 m4 m5 m6 v1 v2 v3 v4 v5 v6 by (intro conjI)
qed

text \<open>
  C2. After loading, every row of the table has a number as its \<open>Estimated AQI\<close>; the
  rows kept are exactly the rows of the file whose category is a key of the table, in
  their order and with the estimate added; so the rows kept and the rows whose category is
  no key (or is missing) add up to the rows of the file.
\<close>

theorem normalised_size:
  assumes "load (Returns raw) = Inr ds"
  shows "list_all (\<lambda>r. is_number (cell_of r ''Estimated AQI'')) (rows ds) \<and>
         rows ds = map with_estimate (filter recognized (rows (strip_columns raw))) \<and>
         length (rows ds) + length (filter (\<lambda>r. \<not> recognized r) (rows (strip_columns raw)))
           = length (rows raw)"
proof -
  have n: "normalise (strip_columns raw) = Inr ds"
    using load_Inr [OF assms] by simp
  have a: "list_all (\<lambda>r. is_number (cell_of r ''Estimated AQI'')) (rows ds)"
    unfolding list_all_iff
  proof
    fix r assume "r \<in> set (rows ds)"
    from loaded_row [OF assms this] show "is_number (cell_of r ''Estimated AQI'')"
      by (metis map_cell_is_number)
  qed
  have b: "rows ds = map with_estimate (filter recognized (rows (strip_columns raw)))"
    using normalise_Inr [OF n] by simp
  have "length (rows (strip_columns raw)) = length (rows raw)"
    by (simp add: strip_columns_def)
  then have c: "length (rows ds) +
      length (filter (\<lambda>r. \<not> recognized r) (rows (strip_columns raw))) = length (rows raw)"
    using sum_length_filter_compl [of recognized "rows (strip_columns raw)"] by (simp add: b)
  show ?thesis using a b c by simp
qed

theorem normalised_size_witness:
  "load (Returns sample_csv) = Inr sample_df \<and>
   list_all (\<lambda>r. is_number (cell_of r ''Estimated AQI'')) (rows sample_df) \<and>
   length (rows sample_df) = 6 \<and>
   length (filter (\<lambda>r. \<not> recognized r) (rows (strip_columns sample_csv))) = 2 \<and>
   length (rows sample_csv) = 8"
proof -
  note n = normalised_size [OF load_sample]
  have l: "length (rows sample_df) = 6" "length (rows sample_csv) = 8"
    by (simp_all add: sample_df_def sample_csv_def)
  from n have "list_all (\<lambda>r. is_number (cell_of r ''Estimated AQI'')) (rows sample_df)"
    by (rule conjunct1)
  moreover from n have "length (rows sample_df) +
      length (filter (\<lambda>r. \<not> recognized r) (rows (strip_columns sample_csv))) =
      length (rows sample_csv)"
    by blast
  then have "length (filter (\<lambda>r. \<not> recognized r) (rows (strip_columns sample_csv))) = 2"
    unfolding l by simp
  ultimately show ?thesis
    using load_sample l by (intro conjI)
qed

section \<open>Filtering\<close>

text \<open>
  C3. On a dataset, \<open>filter_data\<close> with a city that is given and not empty returns
  exactly the rows whose city is that string and whose estimated AQI is strictly above the
  threshold; with no city (and likewise with the empty string, which Python takes as
  false) it returns exactly the rows strictly above the threshold; and when no row
  qualifies the result is the table with no rows, not an error.
\<close>

theorem filter_data_exact:
  assumes "dataset df"
  shows "(c \<noteq> [] \<longrightarrow>
            filter_data df (Some c) t =
              Inr (df\<lparr>rows := filter (\<lambda>r. city r = Str c \<and> t < aqi r) (rows df)\<rparr>)) \<and>
         filter_data df None t = Inr (df\<lparr>rows := filter (\<lambda>r. t < aqi r) (rows df)\<rparr>) \<and>
         filter_data df (Some []) t = filter_data df None t \<and>
         (c \<noteq> [] \<longrightarrow> \<not> (\<exists>r \<in> set (rows df). city r = Str c \<and> t < aqi r) \<longrightarrow>
            filter_data df (Some c) t = Inr (df\<lparr>rows := []\<rparr>)) \<and>
         (\<not> (\<exists>r \<in> set (rows df). t < aqi r) \<longrightarrow>
            filter_data df None t = Inr (df\<lparr>rows := []\<rparr>))"
proof -
  have none: "filter_data df None t = Inr (df\<lparr>rows := filter (\<lambda>r. t < aqi r) (rows df)\<rparr>)"
    by (rule filter_data_threshold [OF assms]) simp
  have empty: "filter_data df (Some []) t = filter_data df None t"
    using filter_data_threshold [OF assms, of "Some []" t] none by simp
  have e1: "filter (\<lambda>r. city r = Str c \<and> t < aqi r) (rows df) = []"
    if "\<not> (\<exists>r \<in> set (rows df). city r = Str c \<and> t < aqi r)"
    using that by (simp add: filter_empty_conv)
  have e2: "filter (\<lambda>r. t < aqi r) (rows df) = []"
    if "\<not> (\<exists>r \<in> set (rows df). t < aqi r)"
    using that by (simp add: filter_empty_conv)
  show ?thesis
    using none empty filter_data_city [OF assms, of c t] e1 e2 by simp
qed

theorem filter_data_exact_witness:
  "dataset (aqi_table [(Str ''CityA'', 80), (Str ''CityA'', 40), (Str ''CityB'', 90)]) \<and>
   filter_data (aqi_table [(Str ''CityA'', 80), (Str ''CityA'', 40), (Str ''CityB'', 90)])
     (Some ''CityA'') 50 = Inr (aqi_table [(Str ''CityA'', 80)]) \<and>
   filter_data (aqi_table [(Str ''CityA'', 80), (Str ''CityA'', 40), (Str ''CityB'', 90)])
     None 50 = Inr (aqi_table [(Str ''CityA'', 80), (Str ''CityB'', 90)]) \<and>
   filter_data (aqi_table [(Str ''CityA'', 80), (Str ''CityA'', 40), (Str ''CityB'', 90)])
     (Some ''CityB'') 90 = Inr (aqi_table []) \<and>
   filter_data (aqi_table [(Str ''CityA'', 80), (Str ''CityA'', 40), (Str ''CityB'', 90)])
     None 90 = Inr (aqi_table [])"
proof -
  let ?df = "aqi_table [(Str ''CityA'', 80), (Str ''CityA'', 40), (Str ''CityB'', 90)]"
  have d: "dataset ?df"
    by code_simp
  show ?thesis
    using d filter_data_exact [OF d, of "''CityA''" 50] filter_data_exact [OF d, of "''CityB''" 90]
    by (simp add: aqi_table_def city_def aqi_def cell_of_def)
qed

text \<open>
  C10. Whatever the store, the table, the city and the threshold, a call of
  \<open>filter_data\<close> leaves every object of the store as it was, the table it was given
  included, whether it returns or raises. When it returns, the result is a new object, and
  it holds a subsequence of the rows of the argument: every row of the result is a row of
  the argument and the rows keep their relative order; the columns are the same.
\<close>

theorem filter_data_call_pure:
  assumes "a < length st" and "filter_data_call st a cty t = (r, st')"
  shows "take (length st) st' = st \<and> st' ! a = st ! a \<and>
         (\<forall>e. r = Inl e \<longrightarrow> st' = st) \<and>
         (\<forall>b. r = Inr b \<longrightarrow>
            b = length st \<and> b \<noteq> a \<and> length st' = Suc (length st) \<and>
            filter_data (st ! a) cty t = Inr (st' ! b) \<and>
            subseq (rows (st' ! b)) (rows (st ! a)) \<and>
            set (rows (st' ! b)) \<subseteq> set (rows (st ! a)) \<and>
            columns (st' ! b) = columns (st ! a))"
proof (cases "filter_data (st ! a) cty t")
  case (Inl e)
  with assms have "r = Inl e" and "st' = st"
    by (simp_all add: filter_data_call_def deref_def)
  then show ?thesis
    by simp
next
  case (Inr res)
  with assms have r: "r = Inr (length st)" and s: "st' = st @ [res]"
    by (simp_all add: filter_data_call_def deref_def)
  have old: "(st @ [res]) ! a = st ! a"
    using assms(1) by (simp add: nth_append)
  have new: "(st @ [res]) ! length st = res"
    by simp
  have fresh: "length st \<noteq> a"
    using assms(1) by simp
  from filter_data_subseq [OF Inr]
  have "subseq (rows res) (rows (st ! a)) \<and> set (rows res) \<subseteq> set (rows (st ! a)) \<and>
        columns res = columns (st ! a)" .
  then show ?thesis
    unfolding r s using Inr fresh by (simp add: old new)
qed

theorem filter_data_call_pure_witness:
  "(0::nat) < length [aqi_table [(Str ''CityA'', 80), (Str ''CityA'', 40), (Str ''CityB'', 90)]] \<and>
   filter_data_call [aqi_table [(Str ''CityA'', 80), (Str ''CityA'', 40), (Str ''CityB'', 90)]]
     0 None 50 =
     (Inr 1, [aqi_table [(Str ''CityA'', 80), (Str ''CityA'', 40), (Str ''CityB'', 90)],
              aqi_table [(Str ''CityA'', 80), (Str ''CityB'', 90)]]) \<and>
   subseq (rows (aqi_table [(Str ''CityA'', 80), (Str ''CityB'', 90)]))
     (rows (aqi_table [(Str ''CityA'', 80), (Str ''CityA'', 40), (Str ''CityB'', 90)])) \<and>
   filter_data_call [aqi_table [(Str ''CityA'', 80), (Str ''CityA'', 40), (Str ''CityB'', 90)]]
     0 (Some ''CityA'') 50 =
     (Inr 1, [aqi_table [(Str ''CityA'', 80), (Str ''CityA'', 40), (Str ''CityB'', 90)],
              aqi_table [(Str ''CityA'', 80)]]) \<and>
   filter_data_call [no_category_csv] 0 None 50 =
     (Inl (KeyError ''Estimated AQI''), [no_category_csv])"
proof -
  let ?df = "aqi_table [(Str ''CityA'', 80), (Str ''CityA'', 40), (Str ''CityB'', 90)]"
  have l: "(0::nat) < length [?df]" and l': "(0::nat) < length [no_category_csv]"
    by simp_all
  have f: "filter_data_call [?df] 0 None 50 =
     (Inr 1, [?df, aqi_table [(Str ''CityA'', 80), (Str ''CityB'', 90)]])"
    by code_simp
  have g: "filter_data_call [?df] 0 (Some ''CityA'') 50 =
     (Inr 1, [?df, aqi_table [(Str ''CityA'', 80)]])"
    by code_simp
  have h: "filter_data_call [no_category_csv] 0 None 50 =
     (Inl (KeyError ''Estimated AQI''), [no_category_csv])"
    by code_simp
  from filter_data_call_pure [OF l f]
  have "subseq (rows (aqi_table [(Str ''CityA'', 80), (Str ''CityB'', 90)])) (rows ?df)"
    by simp
  moreover from filter_data_call_pure [OF l g] filter_data_call_pure [OF l' h]
  have "[no_category_csv] = [no_category_csv]"
    by simp
  ultimately show ?thesis
    using l f g h by (intro conjI)
qed

section \<open>The city list\<close>

text \<open>
  C5. On a table with a \<open>City\<close> column, \<open>cities\<close> returns the strings of that column
  that are not empty and not made of whitespace characters only (Python's whitespace, the
  characters beyond ASCII included), and nothing else: a cell that is no string (a number,
  NaN) contributes nothing and is not turned into a string. The list has no duplicates and
  is in ascending lexicographic order of the characters, which tells upper from lower
  case.
\<close>

theorem cities_sorted_distinct:
  assumes "''City'' \<in> set (columns df)"
  shows "\<exists>cs. cities df = Inr cs \<and>
           set cs = {s. Str s \<in> set (map city (rows df)) \<and> s \<noteq> [] \<and>
                        \<not> list_all isspace (chars s)} \<and>
           distinct cs \<and> sorted cs"
proof -
  let ?cs = "sort (map the_str (filter (\<lambda>c. is_str c \<and> strip (the_str c) \<noteq> [])
           (unique (map city (rows df)))))"
  have c: "cities df = Inr ?cs"
    by (rule cities_Inr [OF assms])
  have "list_all isspace (chars [])"
    by simp
  then have "set ?cs = {s. Str s \<in> set (map city (rows df)) \<and> s \<noteq> [] \<and>
                           \<not> list_all isspace (chars s)}"
    using cities_set [OF c] by (auto simp only: strip_empty_iff)
  moreover have "distinct ?cs"
    using str_cells_distinct [OF distinct_unique, of "\<lambda>s. strip s \<noteq> []" "map city (rows df)"]
    by simp
  moreover have "sorted ?cs"
    by (simp only: sorted_sort)
  ultimately show ?thesis
    using c by blast
qed

theorem cities_sorted_distinct_witness:
  "''City'' \<in> set (columns blank_cities_df) \<and>
   map city (rows blank_cities_df) =
     [Str ''Oslo'', Str '' '', Str [CHR 0xC2, CHR 0xA0],
      Str [CHR 0xE2, CHR 0x80, CHR 0x83, CHR 0x09], Str [], Num 7, NaN, Str ''lima'',
      Str ''Oslo'', Str ''Lima''] \<and>
   cities blank_cities_df = Inr [''Lima'', ''Oslo'', ''lima''] \<and>
   set [''Lima'', ''Oslo'', ''lima''] =
     {s. Str s \<in> set (map city (rows blank_cities_df)) \<and> s \<noteq> [] \<and>
         \<not> list_all isspace (chars s)} \<and>
   distinct [''Lima'', ''Oslo'', ''lima''] \<and> sorted [''Lima'', ''Oslo'', ''lima'']"
proof -
  have c: "''City'' \<in> set (columns blank_cities_df)"
    by code_simp
  have m: "map city (rows blank_cities_df) =
     [Str ''Oslo'', Str '' '', Str [CHR 0xC2, CHR 0xA0],
      Str [CHR 0xE2, CHR 0x80, CHR 0x83, CHR 0x09], Str [], Num 7, NaN, Str ''lima'',
      Str ''Oslo'', Str ''Lima'']"
    by code_simp
  have e: "cities blank_cities_df = Inr [''Lima'', ''Oslo'', ''lima'']"
    by code_simp
  from cities_sorted_distinct [OF c]
  have "set [''Lima'', ''Oslo'', ''lima''] =
     {s. Str s \<in> set (map city (rows blank_cities_df)) \<and> s \<noteq> [] \<and>
         \<not> list_all isspace (chars s)} \<and>
   distinct [''Lima'', ''Oslo'', ''lima''] \<and> sorted [''Lima'', ''Oslo'', ''lima'']"
    unfolding e by blast
  then show ?thesis
    using c m e by blast
qed

section \<open>The fixed display of the summary tab\<close>

text \<open>
  C9. When the city list is not empty, \<open>multi_filter_df\<close> is the result of
  \<open>filter_data\<close> called with the first city of the list and the threshold 50; on a
  dataset that is exactly the rows whose city is that first city and whose estimated AQI
  is strictly above 50.
\<close>

theorem multi_filter_is_filter_data:
  assumes "cities df = Inr cs" and "cs \<noteq> []"
  shows "multi_filter_df df cs = filter_data df (Some (hd cs)) 50 \<and>
         (dataset df \<longrightarrow>
            multi_filter_df df cs =
              Inr (df\<lparr>rows := filter (\<lambda>r. city r = Str (hd cs) \<and> 50 < aqi r) (rows df)\<rparr>))"
proof -
  note h = cities_head [OF assms]
  have g: "getitem df ''City'' = Inr (map city (rows df))"
    using h by (simp add: getitem_def city_fun)
  have e: "multi_filter_df df cs = filter_data df (Some (hd cs)) 50"
    using h
    by (simp add: multi_filter_df_def filter_data_def g default_threshold_def
        mask_and_commute [of _ "series_eq (map city (rows df)) (Some (hd cs))"]
        split: sum.splits)
  have "hd cs \<noteq> []"
    using h by simp
  then show ?thesis
    using e filter_data_city [of df "hd cs" 50] by simp
qed

theorem multi_filter_is_filter_data_witness:
  "cities sample_df = Inr [''Delhi'', ''Lima'', ''Oslo''] \<and> dataset sample_df \<and>
   multi_filter_df sample_df [''Delhi'', ''Lima'', ''Oslo''] =
     filter_data sample_df (Some ''Delhi'') 50 \<and>
   multi_filter_df sample_df [''Delhi'', ''Lima'', ''Oslo''] =
     Inr (sample_df\<lparr>rows := [reading (Str ''Delhi'') ''Hazardous'' 350]\<rparr>)"
proof -
  have f: "filter (\<lambda>r. city r = Str ''Delhi'' \<and> 50 < aqi r) (rows sample_df) =
           [reading (Str ''Delhi'') ''Hazardous'' 350]"
    by code_simp
  have n: "[''Delhi'', ''Lima'', ''Oslo''] \<noteq> []"
    by simp
  note t = multi_filter_is_filter_data [OF cities_sample n]
  from t [THEN conjunct1] have a: "multi_filter_df sample_df [''Delhi'', ''Lima'', ''Oslo''] =
     filter_data sample_df (Some ''Delhi'') 50"
    by simp
  from t [THEN conjunct2] dataset_sample have b: "multi_filter_df sample_df [''Delhi'', ''Lima'', ''Oslo''] =
     Inr (sample_df\<lparr>rows := [reading (Str ''Delhi'') ''Hazardous'' 350]\<rparr>)"
    unfolding f [symmetric] by simp
  show ?thesis
    using a b dataset_sample cities_sample by blast
qed

section \<open>Failures of the loader\<close>

text \<open>
  C4, as the code has it. The script itself reports an error and stops in exactly two
  cases: when \<^verbatim>\<open>read_csv\<close> raises FileNotFoundError, and when no column is named
  \<open>PM2.5 AQI Category\<close> once the header names are stripped. Loading fails in two more
  cases, with an exception that nothing catches: when \<^verbatim>\<open>read_csv\<close> raises any other
  exception, and when the stripped header has \<open>PM2.5 AQI Category\<close> more than once, where
  line 61 raises TypeError. There is no other failure. In every one of the four the run
  ends with that error and no table at all, and the rest of the script (the city list, the
  per-city means) is not computed. When loading succeeds the table is complete: it has the
  column \<open>Estimated AQI\<close> and every row has a number in it.
\<close>

theorem load_failures:
  "(load src = Inl FileNotFound \<longleftrightarrow> src = Raises FileNotFoundError) \<and>
   (load src = Inl ColumnMissing \<longleftrightarrow>
      (\<exists>raw. src = Returns raw \<and> ''PM2.5 AQI Category'' \<notin> set (map strip (columns raw)))) \<and>
   (\<forall>x. load src = Inl (ReadError x) \<longleftrightarrow> src = Raises (OtherException x)) \<and>
   (load src = Inl TypeError \<longleftrightarrow>
      (\<exists>raw. src = Returns raw \<and>
         1 < count_list (map strip (columns raw)) ''PM2.5 AQI Category'')) \<and>
   (\<forall>e. load src = Inl e \<longrightarrow>
      (e = FileNotFound \<or> e = ColumnMissing \<or> e = TypeError \<or> (\<exists>x. e = ReadError x)) \<and>
      script src = Inl e) \<and>
   (\<forall>ds. load src = Inr ds \<longrightarrow>
      ''Estimated AQI'' \<in> set (columns ds) \<and>
      list_all (\<lambda>r. is_number (cell_of r ''Estimated AQI'')) (rows ds))"
proof (intro conjI allI impI)
  show "load src = Inl FileNotFound \<longleftrightarrow> src = Raises FileNotFoundError"
    unfolding load_Inl by simp
  show "load src = Inl ColumnMissing \<longleftrightarrow>
      (\<exists>raw. src = Returns raw \<and> ''PM2.5 AQI Category'' \<notin> set (map strip (columns raw)))"
    unfolding load_Inl by simp
  show "load src = Inl (ReadError x) \<longleftrightarrow> src = Raises (OtherException x)" for x
    unfolding load_Inl by simp
  show "load src = Inl TypeError \<longleftrightarrow>
      (\<exists>raw. src = Returns raw \<and>
         1 < count_list (map strip (columns raw)) ''PM2.5 AQI Category'')"
    unfolding load_Inl by simp
  show "e = FileNotFound \<or> e = ColumnMissing \<or> e = TypeError \<or> (\<exists>x. e = ReadError x)"
    if "load src = Inl e" for e
    using that unfolding load_Inl by blast
  show "script src = Inl e" if "load src = Inl e" for e
    using that by (rule script_Inl)
  show "''Estimated AQI'' \<in> set (columns ds)" if "load src = Inr ds" for ds
    using loaded_complete [OF that] by simp
  show "list_all (\<lambda>r. is_number (cell_of r ''Estimated AQI'')) (rows ds)"
    if "load src = Inr ds" for ds
    using loaded_complete [OF that] by simp
qed

theorem load_failures_witness:
  "load (Raises FileNotFoundError) = Inl FileNotFound \<and>
   script (Raises FileNotFoundError) = Inl FileNotFound \<and>
   load (Raises (OtherException ''EmptyDataError'')) = Inl (ReadError ''EmptyDataError'') \<and>
   script (Raises (OtherException ''EmptyDataError'')) = Inl (ReadError ''EmptyDataError'') \<and>
   ''PM2.5 AQI Category'' \<notin> set (map strip (columns no_category_csv)) \<and>
   load (Returns no_category_csv) = Inl ColumnMissing \<and>
   script (Returns no_category_csv) = Inl ColumnMissing \<and>
   1 < count_list (map strip (columns twice_category_csv)) ''PM2.5 AQI Category'' \<and>
   load (Returns twice_category_csv) = Inl TypeError \<and>
   script (Returns twice_category_csv) = Inl TypeError \<and>
   load (Returns sample_csv) = Inr sample_df \<and>
   ''Estimated AQI'' \<in> set (columns sample_df) \<and>
   list_all (\<lambda>r. is_number (cell_of r ''Estimated AQI'')) (rows sample_df)"
proof -
  have m: "''PM2.5 AQI Category'' \<notin> set (map strip (columns no_category_csv))"
    by code_simp
  have t: "1 < count_list (map strip (columns twice_category_csv)) ''PM2.5 AQI Category''"
    by code_simp
  note a = load_failures [of "Raises FileNotFoundError"]
  note o = load_failures [of "Raises (OtherException ''EmptyDataError'')"]
  note b = load_failures [of "Returns no_category_csv"]
  note d = load_failures [of "Returns twice_category_csv"]
  note c = load_failures [of "Returns sample_csv"]
  have a1: "load (Raises FileNotFoundError) = Inl FileNotFound"
    using a by blast
  have a2: "script (Raises FileNotFoundError) = Inl FileNotFound"
    using a a1 by blast
  have o1: "load (Raises (OtherException ''EmptyDataError'')) = Inl (ReadError ''EmptyDataError'')"
    using o by blast
  have o2: "script (Raises (OtherException ''EmptyDataError'')) = Inl (ReadError ''EmptyDataError'')"
    using o o1 by blast
  have b1: "load (Returns no_category_csv) = Inl ColumnMissing"
    using b m by blast
  have b2: "script (Returns no_category_csv) = Inl ColumnMissing"
    using b b1 by blast
  have d1: "load (Returns twice_category_csv) = Inl TypeError"
    using d t by blast
  have d2: "script (Returns twice_category_csv) = Inl TypeError"
    using d d1 by blast
  have c1: "''Estimated AQI'' \<in> set (columns sample_df) \<and>
      list_all (\<lambda>r. is_number (cell_of r ''Estimated AQI'')) (rows sample_df)"
    using c load_sample by blast
  show ?thesis
    using a1 a2 o1 o2 b1 b2 d1 d2 c1 m t load_sample by (intro conjI) simp_all
qed

text \<open>
  The claim as the spec states it, that loading fails in exactly two conditions (the file
  cannot be opened, the column is absent), is false: the file below is opened and parsed
  and its stripped header has the column, yet loading fails; and \<^verbatim>\<open>read_csv\<close>
  raising for a file that exists and is empty ends the run with an error that the script
  neither catches nor reports.
\<close>

theorem load_fails_with_column_present:
  "''PM2.5 AQI Category'' \<in> set (map strip (columns twice_category_csv)) \<and>
   load (Returns twice_category_csv) = Inl TypeError \<and>
   load (Raises (OtherException ''EmptyDataError'')) = Inl (ReadError ''EmptyDataError'')"
  by code_simp

section \<open>Summary\<close>

text \<open>
  C8. On a dataset with at least one row, \<open>get_summary\<close> returns the arithmetic mean
  and the maximum of the estimated AQI over all rows; on the values 25, 75 and 175 the
  mean is 275/3 (91.666...) and the maximum is 175.
\<close>

theorem get_summary_mean_max:
  assumes "dataset df" and "rows df \<noteq> []"
  shows "get_summary df =
    Inr (Num (sum_list (map aqi (rows df)) / of_nat (length (rows df))),
         Num (Max (set (map aqi (rows df)))))"
proof -
  let ?s = "map (\<lambda>r. cell_of r ''Estimated AQI'') (rows df)"
  have all: "list_all (\<lambda>r. is_number (cell_of r ''Estimated AQI'')) (rows df)"
    using assms(1) by (simp add: dataset_def)
  have n: "numbers ?s = map aqi (rows df)"
    by (simp add: numbers_all [OF all] aqi_fun)
  have nostr: "\<not> list_ex is_str ?s"
    by (rule dataset_getitem(3) [OF assms(1)])
  have "\<not> list_all is_str ?s"
    using assms(2) all number_not_str by (cases "rows df") (auto simp: list_all_iff)
  then have mx: "series_max ?s = Inr (Num (Max (set (map aqi (rows df)))))"
    using nostr assms(2) by (simp add: series_max_def n fold_max_Max)
  have mn: "series_mean ?s = Inr (Num (sum_list (map aqi (rows df)) / of_nat (length (rows df))))"
    using nostr by (simp add: series_mean_def mean_of_numbers [OF all assms(2)])
  show ?thesis
    by (simp add: get_summary_def dataset_getitem(2) [OF assms(1)] mx mn)
qed

theorem get_summary_mean_max_witness:
  "dataset (aqi_table [(Str ''CityA'', 25), (Str ''CityA'', 75), (Str ''CityB'', 175)]) \<and>
   rows (aqi_table [(Str ''CityA'', 25), (Str ''CityA'', 75), (Str ''CityB'', 175)]) \<noteq> [] \<and>
   get_summary (aqi_table [(Str ''CityA'', 25), (Str ''CityA'', 75), (Str ''CityB'', 175)]) =
     Inr (Num (275 / 3), Num 175)"
proof -
  let ?df = "aqi_table [(Str ''CityA'', 25), (Str ''CityA'', 75), (Str ''CityB'', 175)]"
  have d: "dataset ?df"
    by code_simp
  have r: "rows ?df \<noteq> []"
    by (simp add: aqi_table_def)
  have a: "map aqi (rows ?df) = [25, 75, 175]"
    by (simp add: aqi_table_def aqi_def cell_of_def)
  have l: "length (rows ?df) = 3"
    by (simp add: aqi_table_def)
  show ?thesis
    using d r get_summary_mean_max [OF d r] unfolding a l by simp
qed

section \<open>The greatest readings\<close>

text \<open>
  C6. On a dataset and for every \<open>n\<close>, \<open>nlargest n\<close> on the estimated AQI (the script
  calls it with \<open>n = 10\<close>, as \<open>top10_df\<close>) returns \<open>min n (length rows)\<close> rows of the
  table, in descending order of the estimated AQI, and no row left out has a greater value
  than a row returned. On the values 350, 25, 175, 75 and \<open>n = 2\<close> it returns the rows
  with 350 and 175, in that order.
\<close>

theorem nlargest_top:
  assumes "dataset df"
  shows "\<exists>res. nlargest n ''Estimated AQI'' df = Inr res \<and>
           length (rows res) = min n (length (rows df)) \<and>
           sorted_wrt (\<lambda>a b. aqi b \<le> aqi a) (rows res) \<and>
           (\<exists>rest. mset (rows res) + mset rest = mset (rows df) \<and>
                   (\<forall>a \<in> set (rows res). \<forall>b \<in> set rest. aqi b \<le> aqi a))"
proof -
  let ?full = "sort_key (\<lambda>r. - aqi r) (rows df)"
  let ?res = "df\<lparr>rows := take n ?full\<rparr>"
  have s: "sorted_wrt (\<lambda>a b. aqi b \<le> aqi a) ?full"
    by (rule sort_key_descending)
  then have "sorted_wrt (\<lambda>a b. aqi b \<le> aqi a) (take n ?full @ drop n ?full)"
    by simp
  then have split: "sorted_wrt (\<lambda>a b. aqi b \<le> aqi a) (take n ?full) \<and>
      (\<forall>a \<in> set (take n ?full). \<forall>b \<in> set (drop n ?full). aqi b \<le> aqi a)"
    unfolding sorted_wrt_append by blast
  have "mset (take n ?full) + mset (drop n ?full) = mset ?full"
    by (simp only: mset_append [symmetric] append_take_drop_id)
  then have m: "mset (take n ?full) + mset (drop n ?full) = mset (rows df)"
    by simp
  have l: "length (take n ?full) = min n (length (rows df))"
    by (simp add: min.commute)
  have "nlargest n ''Estimated AQI'' df = Inr ?res"
    by (rule nlargest_dataset [OF assms])
  moreover have "length (rows ?res) = min n (length (rows df))"
    using l by simp
  moreover have "sorted_wrt (\<lambda>a b. aqi b \<le> aqi a) (rows ?res)"
    using split by simp
  moreover have "\<exists>rest. mset (rows ?res) + mset rest = mset (rows df) \<and>
                   (\<forall>a \<in> set (rows ?res). \<forall>b \<in> set rest. aqi b \<le> aqi a)"
    using m split by (intro exI [of _ "drop n ?full"]) simp
  ultimately show ?thesis
    by blast
qed

theorem nlargest_top_witness:
  "dataset (aqi_table [(Str ''A'', 350), (Str ''B'', 25), (Str ''C'', 175), (Str ''D'', 75)]) \<and>
   nlargest 2 ''Estimated AQI''
     (aqi_table [(Str ''A'', 350), (Str ''B'', 25), (Str ''C'', 175), (Str ''D'', 75)]) =
     Inr (aqi_table [(Str ''A'', 350), (Str ''C'', 175)]) \<and>
   length (rows (aqi_table [(Str ''A'', 350), (Str ''C'', 175)])) = 2 \<and>
   sorted_wrt (\<lambda>a b. aqi b \<le> aqi a) (rows (aqi_table [(Str ''A'', 350), (Str ''C'', 175)]))"
proof -
  let ?df = "aqi_table [(Str ''A'', 350), (Str ''B'', 25), (Str ''C'', 175), (Str ''D'', 75)]"
  have d: "dataset ?df"
    by code_simp
  have e: "nlargest 2 ''Estimated AQI'' ?df = Inr (aqi_table [(Str ''A'', 350), (Str ''C'', 175)])"
    by code_simp
  have l: "length (rows ?df) = 4"
    by (simp add: aqi_table_def)
  from nlargest_top [OF d, of 2]
  have "length (rows (aqi_table [(Str ''A'', 350), (Str ''C'', 175)])) = 2 \<and>
   sorted_wrt (\<lambda>a b. aqi b \<le> aqi a) (rows (aqi_table [(Str ''A'', 350), (Str ''C'', 175)]))"
    unfolding e l by auto
  then show ?thesis
    using d e by blast
qed

section \<open>Means by city\<close>

text \<open>
  C7, as the code has it. On a dataset, \<open>grouped_df\<close> has exactly one entry for each
  distinct cell of the \<open>City\<close> column other than NaN: a blank string or a number has its
  entry, although \<open>cities\<close> leaves it out, and a missing city has none. The value of an
  entry is the arithmetic mean of the estimated AQI over the rows of that city. On the rows
  (CityA, 25), (CityA, 75), (CityB, 175) the result is CityA: 50, CityB: 175.
\<close>

theorem grouped_df_means:
  assumes "dataset df"
  shows "\<exists>g. grouped_df df = Inr g \<and>
           distinct (map fst g) \<and>
           set (map fst g) = set (map city (rows df)) - {NaN} \<and>
           (\<forall>k \<in> set (map fst g).
              map_of g k =
                Some (Num (sum_list (map aqi (filter (\<lambda>r. city r = k) (rows df))) /
                           of_nat (length (filter (\<lambda>r. city r = k) (rows df))))))"
proof -
  let ?h = "\<lambda>k. mean_of (map (\<lambda>r. cell_of r ''Estimated AQI'')
                            (filter (\<lambda>r. city r = k) (rows df)))"
  let ?ks = "group_keys (map city (rows df))"
  let ?g = "map (\<lambda>k. (k, ?h k)) ?ks"
  have keys: "map fst ?g = ?ks"
    by (simp add: comp_def)
  have e: "grouped_df df = Inr ?g"
    by (rule grouped_df_dataset [OF assms])
  have d: "distinct (map fst ?g)"
    unfolding keys by (rule group_keys_distinct)
  have s: "set (map fst ?g) = set (map city (rows df)) - {NaN}"
    unfolding keys by (rule group_keys_set)
  have m: "map_of ?g k =
      Some (Num (sum_list (map aqi (filter (\<lambda>r. city r = k) (rows df))) /
                 of_nat (length (filter (\<lambda>r. city r = k) (rows df)))))"
    if "k \<in> set (map fst ?g)" for k
  proof -
    from that have k: "k \<in> set ?ks"
      unfolding keys .
    then have "k \<in> set (map city (rows df))"
      unfolding group_keys_set by blast
    from group_mean [OF assms this] map_of_graph [OF k, of ?h] show ?thesis
      by simp
  qed
  show ?thesis
  proof (intro exI conjI ballI)
    show "grouped_df df = Inr ?g" by (rule e)
    show "distinct (map fst ?g)" by (rule d)
    show "set (map fst ?g) = set (map city (rows df)) - {NaN}" by (rule s)
    show "map_of ?g k =
      Some (Num (sum_list (map aqi (filter (\<lambda>r. city r = k) (rows df))) /
                 of_nat (length (filter (\<lambda>r. city r = k) (rows df)))))"
      if "k \<in> set (map fst ?g)" for k
      using that by (rule m)
  qed
qed

theorem grouped_df_means_witness:
  "dataset (aqi_table [(Str ''CityA'', 25), (Str ''CityA'', 75), (Str ''CityB'', 175)]) \<and>
   grouped_df (aqi_table [(Str ''CityA'', 25), (Str ''CityA'', 75), (Str ''CityB'', 175)]) =
     Inr [(Str ''CityA'', Num 50), (Str ''CityB'', Num 175)] \<and>
   set (map city (rows (aqi_table [(Str ''CityA'', 25), (Str ''CityA'', 75), (Str ''CityB'', 175)])))
     - {NaN} = {Str ''CityA'', Str ''CityB''} \<and>
   grouped_df sample_df =
     Inr [(Str '' '', Num 250), (Str ''Delhi'', Num 350), (Str ''Lima'', Num 100),
          (Str ''Oslo'', Num 25)]"
proof -
  let ?df = "aqi_table [(Str ''CityA'', 25), (Str ''CityA'', 75), (Str ''CityB'', 175)]"
  have d: "dataset ?df"
    by code_simp
  have e: "grouped_df ?df = Inr [(Str ''CityA'', Num 50), (Str ''CityB'', Num 175)]"
    by code_simp
  have g: "grouped_df sample_df =
     Inr [(Str '' '', Num 250), (Str ''Delhi'', Num 350), (Str ''Lima'', Num 100),
          (Str ''Oslo'', Num 25)]"
    by code_simp
  from grouped_df_means [OF d]
  have "set (map fst [(Str ''CityA'', Num 50), (Str ''CityB'', Num 175)]) =
        set (map city (rows ?df)) - {NaN}"
    unfolding e by blast
  then show ?thesis
    using d e g by auto
qed

text \<open>
  The claim as the spec states it, one entry for every distinct value of the raw city
  field, those that \<open>cities\<close> leaves out included, fails for a missing city: the row is
  in the dataset, its city is left out by \<open>cities\<close>, and the grouping has no entry for
  it.
\<close>

theorem grouped_df_drops_missing_city:
  "dataset (aqi_table [(NaN, 25), (Str ''CityA'', 75)]) \<and>
   NaN \<in> set (map city (rows (aqi_table [(NaN, 25), (Str ''CityA'', 75)]))) \<and>
   cities (aqi_table [(NaN, 25), (Str ''CityA'', 75)]) = Inr [''CityA''] \<and>
   grouped_df (aqi_table [(NaN, 25), (Str ''CityA'', 75)]) = Inr [(Str ''CityA'', Num 75)] \<and>
   set (map fst [(Str ''CityA'', Num 75)]) \<noteq>
     set (map city (rows (aqi_table [(NaN, 25), (Str ''CityA'', 75)])))"
proof -
  have "dataset (aqi_table [(NaN, 25), (Str ''CityA'', 75)])"
    by code_simp
  moreover have n: "NaN \<in> set (map city (rows (aqi_table [(NaN, 25), (Str ''CityA'', 75)])))"
    by (simp add: aqi_table_def city_def cell_of_def)
  moreover have "cities (aqi_table [(NaN, 25), (Str ''CityA'', 75)]) = Inr [''CityA'']"
    by code_simp
  moreover have "grouped_df (aqi_table [(NaN, 25), (Str ''CityA'', 75)]) =
      Inr [(Str ''CityA'', Num 75)]"
    by code_simp
  moreover have "set (map fst [(Str ''CityA'', Num 75)]) \<noteq>
     set (map city (rows (aqi_table [(NaN, 25), (Str ''CityA'', 75)])))"
    using n by auto
  ultimately show ?thesis
    by blast
qed

end
